theory Spec2Isabelle
  imports Main
begin

section \<open>JavaScript string primitives used by the front end\<close>

text \<open>
  Strings are lists of 8-bit code units. \<open>is_ws\<close> lists the code units below 256 that
  \<^verbatim>\<open>String.prototype.trim\<close> strips: TAB, LF, VT, FF, CR, SPACE and NBSP.
\<close>

definition is_ws :: "char \<Rightarrow> bool" where
  "is_ws c \<longleftrightarrow>
     c = CHR 0x09 \<or> c = CHR 0x0A \<or> c = CHR 0x0B \<or> c = CHR 0x0C \<or> c = CHR 0x0D \<or>
     c = CHR 0x20 \<or> c = CHR 0xA0"

definition trim :: "string \<Rightarrow> string" where
  "trim s = rev (dropWhile is_ws (rev (dropWhile is_ws s)))"

text \<open>
  \<^verbatim>\<open>s.split(sep)\<close> for a one-character separator: the pieces between the separators,
  empty pieces kept, so the empty string gives one empty piece.
\<close>

fun split_on :: "char \<Rightarrow> string \<Rightarrow> string list" where
  "split_on sep [] = [[]]"
| "split_on sep (c # cs) =
     (if c = sep then [] # split_on sep cs
      else (case split_on sep cs of
              [] \<Rightarrow> [[c]]
            | p # ps \<Rightarrow> (c # p) # ps))"

text \<open>\<^verbatim>\<open>s.includes(sep)\<close> for a one-character needle.\<close>

definition includesChar :: "string \<Rightarrow> char \<Rightarrow> bool" where
  "includesChar s sep \<longleftrightarrow> sep \<in> set s"

text \<open>Decimal rendering of a number inside a template literal.\<close>

definition digit_char :: "nat \<Rightarrow> char" where
  "digit_char d = ''0123456789'' ! d"

fun show_nat :: "nat \<Rightarrow> string" where
  "show_nat n = (if n < 10 then [digit_char n] else show_nat (n div 10) @ [digit_char (n mod 10)])"

declare show_nat.simps [simp del]

text \<open>Truthiness of a possibly undefined string: \<^verbatim>\<open>undefined\<close> and \<^verbatim>\<open>''\<close> are falsy.\<close>

definition truthy :: "string option \<Rightarrow> bool" where
  "truthy v = (case v of None \<Rightarrow> False | Some s \<Rightarrow> s \<noteq> [])"

section \<open>DataTable.jsx\<close>

text \<open>
  A row is a JavaScript object whose own property values are strings: a partial map from
  property name to value. The transient identifier is the property \<open>id\<close>.
\<close>

type_synonym row = "string \<rightharpoonup> string"

text \<open>
  A row object inherits from \<^verbatim>\<open>Object.prototype\<close>. These are the property names it inherits:
  reading one of them from a row that has no own property of that name yields the built-in
  (a function, or the prototype object for \<open>__proto__\<close>), not \<^verbatim>\<open>undefined\<close>.
\<close>

definition objectPrototypeProps :: "string list" where
  "objectPrototypeProps =
     [''constructor'', ''__proto__'', ''hasOwnProperty'', ''isPrototypeOf'',
      ''propertyIsEnumerable'', ''toLocaleString'', ''toString'', ''valueOf'',
      ''__defineGetter__'', ''__defineSetter__'', ''__lookupGetter__'', ''__lookupSetter__'']"

datatype js_value = Undefined | Str string | Inherited

text \<open>\<^verbatim>\<open>row[k]\<close>: the own property if there is one, else what the prototype gives.\<close>

definition getProp :: "row \<Rightarrow> string \<Rightarrow> js_value" where
  "getProp r k =
     (case r k of
        Some s \<Rightarrow> Str s
      | None \<Rightarrow> if k \<in> set objectPrototypeProps then Inherited else Undefined)"

text \<open>
  \<^verbatim>\<open>row[k] = v\<close> for a string \<open>v\<close>: an own property is written or created, except that for
  \<open>__proto__\<close> without an own property the inherited setter runs, which ignores a string.
\<close>

definition setProp :: "row \<Rightarrow> string \<Rightarrow> string \<Rightarrow> row" where
  "setProp r k v = (if k = ''__proto__'' \<and> r k = None then r else r(k \<mapsto> v))"

text \<open>
  The component state \<^verbatim>\<open>rows\<close>, with the calls of the parent's \<^verbatim>\<open>onChange\<close> recorded in
  the order they are made (the parent stores the latest one as its \<^verbatim>\<open>tableData\<close>).
\<close>

record table_state =
  rows :: "row list"
  notified :: "row list list"

datatype editor = TextEditor

record column =
  key :: string
  name :: string
  resizable :: bool
  width :: nat
  renderEditCell :: editor



text \<open>The \<^verbatim>\<open>columnOrder\<close> array built inside \<^verbatim>\<open>handlePaste\<close> (lines 135-144).\<close>

definition columnOrder :: "string list \<Rightarrow> string list" where
  "columnOrder flds =
     (let sampleNameField = find (\<lambda>f. f = ''Sample Name'') flds;
          sampleDescField = find (\<lambda>f. f = ''Sample Description'') flds;
          otherFields = filter (\<lambda>f. f \<noteq> ''Sample Name'' \<and> f \<noteq> ''Sample Description'') flds
      in (if truthy sampleNameField then [the sampleNameField] else [])
         @ [''Operator'']
         @ [''Timestamp'']
         @ otherFields
         @ (if truthy sampleDescField then [the sampleDescField] else []))"

text \<open>
  The test \<^verbatim>\<open>row[field] && String(row[field]).trim() !== ''\<close> and the filter-then-strip
  code that \<^verbatim>\<open>handleRowsChange\<close>, \<^verbatim>\<open>handlePaste\<close> and \<^verbatim>\<open>handleRemoveRow\<close> each repeat.
  An inherited built-in is truthy and its string form is not blank.
\<close>

definition hasValue :: "row \<Rightarrow> string \<Rightarrow> bool" where
  "hasValue r field =
     (case getProp r field of
        Undefined \<Rightarrow> False
      | Str s \<Rightarrow> s \<noteq> [] \<and> trim s \<noteq> []
      | Inherited \<Rightarrow> True)"

definition nonEmptyRows :: "string list \<Rightarrow> row list \<Rightarrow> row list" where
  "nonEmptyRows flds rs = filter (\<lambda>r. list_ex (\<lambda>field. hasValue r field) flds) rs"

definition stripId :: "row \<Rightarrow> row" where
  "stripId r = r(''id'' := None)"

definition cleanedRows :: "string list \<Rightarrow> row list \<Rightarrow> row list" where
  "cleanedRows flds rs = map stripId (nonEmptyRows flds rs)"

text \<open>
  \<^verbatim>\<open>handleRowsChange\<close> (lines 104-116). The rest pattern \<^verbatim>\<open>{ id, ...rest }\<close> copies the own
  properties other than \<open>id\<close>.
\<close>

definition handleRowsChange :: "string list \<Rightarrow> row list \<Rightarrow> table_state \<Rightarrow> table_state" where
  "handleRowsChange flds newRows st =
     \<lparr>rows = newRows, notified = notified st @ [cleanedRows flds newRows]\<rparr>"

text \<open>The object literal of a fresh row followed by \<^verbatim>\<open>fields.forEach(field => row[field] = '')\<close>.\<close>

definition blankRow :: "string list \<Rightarrow> string \<Rightarrow> string \<Rightarrow> row" where
  "blankRow flds operatorName rid =
     fold (\<lambda>field r. setProp r field [])
          flds
          [''id'' \<mapsto> rid, ''Timestamp'' \<mapsto> [], ''Operator'' \<mapsto> operatorName]"

text \<open>\<^verbatim>\<open>cells.forEach((cell, cellIdx) => ...)\<close> (lines 160-165).\<close>

definition assignCells :: "string list \<Rightarrow> string list \<Rightarrow> row \<Rightarrow> row" where
  "assignCells order cells r =
     fold (\<lambda>(cellIdx, cell) r'.
             if cellIdx < length order then setProp r' (order ! cellIdx) cell else r')
          (enumerate 0 cells) r"

definition parseLine :: "string \<Rightarrow> string list" where
  "parseLine rowString =
     (let cells = (if includesChar rowString CHR 0x09 then split_on CHR 0x09 rowString
                   else split_on CHR '','' rowString)
      in map trim cells)"

definition pastedRowsOf :: "string \<Rightarrow> string list" where
  "pastedRowsOf pastedData = filter (\<lambda>r. trim r \<noteq> []) (split_on CHR 0x0A pastedData)"

definition pasteNewRows :: "string list \<Rightarrow> string \<Rightarrow> nat \<Rightarrow> string list \<Rightarrow> row list" where
  "pasteNewRows flds operatorName n pastedRows =
     (let parsedRows = map parseLine pastedRows;
          order = columnOrder flds
      in map (\<lambda>(idx, cells).
                assignCells order cells
                  (blankRow flds operatorName (''row-'' @ show_nat (n + idx))))
             (enumerate 0 parsedRows))"

text \<open>\<^verbatim>\<open>handlePaste\<close> (lines 118-185); \<^verbatim>\<open>event.preventDefault()\<close> touches no state here.\<close>

definition handlePaste :: "string list \<Rightarrow> string \<Rightarrow> string \<Rightarrow> table_state \<Rightarrow> table_state" where
  "handlePaste flds operatorName pastedData st =
     (let pastedRows = pastedRowsOf pastedData
      in if length pastedRows = 0 then st
         else
           let newRows = pasteNewRows flds operatorName (length (rows st)) pastedRows;
               allRows = rows st @ newRows
           in \<lparr>rows = rows st @ newRows,
               notified = notified st @ [cleanedRows flds allRows]\<rparr>)"

text \<open>\<^verbatim>\<open>handleAddRow\<close> (lines 187-197).\<close>

definition handleAddRow :: "string list \<Rightarrow> string \<Rightarrow> table_state \<Rightarrow> table_state" where
  "handleAddRow flds operatorName st =
     st\<lparr>rows := rows st @ [blankRow flds operatorName (''row-'' @ show_nat (length (rows st)))]\<rparr>"

text \<open>\<^verbatim>\<open>handleRemoveRow\<close> (lines 199-213); \<^verbatim>\<open>slice(0, -1)\<close> is \<open>butlast\<close>.\<close>

definition handleRemoveRow :: "string list \<Rightarrow> table_state \<Rightarrow> table_state" where
  "handleRemoveRow flds st =
     (if length (rows st) > 0 then
        let newRows = butlast (rows st)
        in \<lparr>rows = butlast (rows st), notified = notified st @ [cleanedRows flds newRows]\<rparr>
      else st)"

text \<open>\<^verbatim>\<open>handleClearAll\<close> (lines 215-229).\<close>

definition handleClearAll :: "string list \<Rightarrow> string \<Rightarrow> table_state \<Rightarrow> table_state" where
  "handleClearAll flds operatorName st =
     (let clearedRows =
            map (\<lambda>r. fold (\<lambda>field r'. setProp r' field []) flds
                        ((\<lambda>k. None)(''id'' := r ''id'', ''Timestamp'' \<mapsto> [],
                                     ''Operator'' \<mapsto> operatorName)))
                (rows st)
      in \<lparr>rows = clearedRows, notified = notified st @ [[]]\<rparr>)"

section \<open>services/api.js: the backend capabilities\<close>

text \<open>
  A rejected promise is a thrown error value. The handlers read
  \<^verbatim>\<open>err.response?.data?.detail\<close> and \<^verbatim>\<open>err.message\<close> from it; a \<^verbatim>\<open>TypeError\<close> has no
  \<^verbatim>\<open>response\<close>.
\<close>

datatype js_error = TypeError string | RequestError "string option" string

fun detail :: "js_error \<Rightarrow> string option" where
  "detail (TypeError m) = None"
| "detail (RequestError d m) = d"

fun message_of :: "js_error \<Rightarrow> string" where
  "message_of (TypeError m) = m"
| "message_of (RequestError d m) = m"

datatype 'a api_result = Returned 'a | Threw js_error

text \<open>\<^verbatim>\<open>a || b\<close> on a possibly undefined string, and string concatenation of such a value.\<close>

definition orElse :: "string option \<Rightarrow> string \<Rightarrow> string" where
  "orElse a b = (if truthy a then the a else b)"

definition toStr :: "string option \<Rightarrow> string" where
  "toStr a = (case a of None \<Rightarrow> ''undefined'' | Some s \<Rightarrow> s)"

text \<open>
  The user object of the login response: \<open>name\<close>, \<open>email\<close>, \<open>orcid\<close>, \<open>projects\<close> (here with
  the prefix \<open>u_\<close>, the plain names being those of the upload payload).
\<close>

record user_info =
  u_name :: string
  u_email :: string
  u_orcid :: string
  u_projects :: "string list"

text \<open>One entry of \<^verbatim>\<open>resolution.matches\<close>.\<close>

record batch_match =
  unique_id :: string
  sample_name :: string
  description :: "string option"

text \<open>
  The response of \<^verbatim>\<open>/batch/resolve\<close>: \<open>status\<close>, \<open>batch_id\<close> (here \<open>r_batch_id\<close>),
  \<open>input\<close> and \<open>matches\<close>. The status is whatever string the backend sent.
\<close>

record resolution =
  status :: string
  r_batch_id :: "string option"
  input :: "string option"
  matches :: "batch_match list"

text \<open>The body of \<^verbatim>\<open>/synthesis/upload\<close>, with \<^verbatim>\<open>null\<close> as \<open>None\<close>.\<close>

record upload_payload =
  email :: string
  orcid :: string
  user_name :: string
  project :: string
  synthesis_type :: string
  batch_id :: "string option"
  data :: "row list"

record upload_summary =
  Project :: string
  SynthesisType :: string
  SamplesUploaded :: nat
  Failed :: nat
  TotalRows :: nat
  Errors :: "string list"

record upload_response =
  success :: bool
  message :: "string option"
  summary :: "upload_summary option"

text \<open>A request sent to the backend; a handler's calls are listed in the order made.\<close>

text \<open>
  The body of \<^verbatim>\<open>/batch/create\<close> (\<open>batch_name\<close>, \<open>batch_id\<close>, \<open>batch_description\<close>, \<open>orcid\<close>,
  \<open>project\<close>) and its response (\<open>success\<close>, \<open>unique_id\<close>, \<open>message\<close>).
\<close>

record batch_creation =
  batch_name :: string
  new_batch_id :: string
  batch_description :: string
  c_orcid :: string
  c_project :: "string option"

record creation_response =
  c_success :: bool
  c_unique_id :: "string option"
  c_message :: "string option"

datatype net_call =
  ResolveCall string string string
| UploadCall upload_payload
| CreateBatchCall batch_creation

type_synonym resolve_fn = "string \<Rightarrow> string \<Rightarrow> string \<Rightarrow> resolution api_result"
type_synonym upload_fn = "upload_payload \<Rightarrow> upload_response api_result"
type_synonym create_fn = "batch_creation \<Rightarrow> creation_response api_result"

section \<open>MainForm.jsx\<close>

text \<open>The object handed to \<^verbatim>\<open>onShowBatchResolution\<close>: \<open>project\<close>, \<open>synthesisType\<close>, \<open>data\<close>.\<close>

record pending_upload =
  p_project :: string
  p_synthesisType :: string
  p_data :: "row list"

datatype parent_callback =
  OnShowBatchResolution resolution pending_upload
| OnUploadSuccess "string option" "upload_summary option"

record main_form =
  selectedProject :: string
  selectedSynthesisType :: string
  batchId :: string
  tableData :: "row list"
  loading :: bool
  error :: string

text \<open>What one run of a handler did: the new form state, the requests sent, the parent callback.\<close>

record upload_outcome =
  form :: main_form
  calls :: "net_call list"
  callback :: "parent_callback option"

text \<open>\<^verbatim>\<open>performUpload\<close> (lines 89-114).\<close>

definition performUpload :: "upload_fn \<Rightarrow> user_info \<Rightarrow> main_form \<Rightarrow> string option \<Rightarrow> upload_outcome" where
  "performUpload upload userInfo st resolvedBatchId =
     (let uploadData =
            \<lparr>email = u_email userInfo,
             orcid = u_orcid userInfo,
             user_name = u_name userInfo,
             project = selectedProject st,
             synthesis_type = selectedSynthesisType st,
             batch_id = resolvedBatchId,
             data = tableData st\<rparr>
      in case upload uploadData of
           Returned response \<Rightarrow>
             if success response then
               \<lparr>form = st\<lparr>loading := False\<rparr>,
                calls = [UploadCall uploadData],
                callback = Some (OnUploadSuccess (message response) (summary response))\<rparr>
             else
               \<lparr>form = st\<lparr>error := orElse (message response) ''Upload failed'', loading := False\<rparr>,
                calls = [UploadCall uploadData],
                callback = None\<rparr>
         | Threw err \<Rightarrow>
             \<lparr>form = st\<lparr>error := orElse (detail err) ''An error occurred during upload'',
                        loading := False\<rparr>,
              calls = [UploadCall uploadData],
              callback = None\<rparr>)"

text \<open>
  \<^verbatim>\<open>handleUpload\<close> (lines 35-87). \<^verbatim>\<open>tableData\<close> is always an array, so \<^verbatim>\<open>!tableData\<close> is
  false and the third check is the length test.
\<close>

definition handleUpload :: "resolve_fn \<Rightarrow> upload_fn \<Rightarrow> user_info \<Rightarrow> main_form \<Rightarrow> upload_outcome" where
  "handleUpload resolveBatch upload userInfo st0 =
     (let st = st0\<lparr>error := []\<rparr>
      in if selectedProject st = [] then
           \<lparr>form = st\<lparr>error := ''Please select a project''\<rparr>, calls = [], callback = None\<rparr>
         else if selectedSynthesisType st = [] then
           \<lparr>form = st\<lparr>error := ''Please select a synthesis type''\<rparr>, calls = [], callback = None\<rparr>
         else if length (tableData st) = 0 then
           \<lparr>form = st\<lparr>error := ''Please enter at least one row of data''\<rparr>,
            calls = [], callback = None\<rparr>
         else
           let st = st\<lparr>loading := True\<rparr>
           in if trim (batchId st) \<noteq> [] then
                let request = ResolveCall (trim (batchId st)) (u_orcid userInfo) (selectedProject st)
                in case resolveBatch (trim (batchId st)) (u_orcid userInfo) (selectedProject st) of
                     Threw err \<Rightarrow>
                       \<lparr>form = st\<lparr>error := orElse (detail err) ''An error occurred during upload'',
                                  loading := False\<rparr>,
                        calls = [request],
                        callback = None\<rparr>
                   | Returned resolution \<Rightarrow>
                       if status resolution = ''not_found''
                          \<or> status resolution = ''multiple_matches'' then
                         \<lparr>form = st\<lparr>loading := False\<rparr>,
                          calls = [request],
                          callback = Some (OnShowBatchResolution resolution
                                       \<lparr>p_project = selectedProject st,
                                        p_synthesisType = selectedSynthesisType st,
                                        p_data = tableData st\<rparr>)\<rparr>
                       else
                         let out = performUpload upload userInfo st (r_batch_id resolution)
                         in out\<lparr>calls := request # calls out\<rparr>
              else performUpload upload userInfo st None)"

section \<open>App.jsx\<close>

datatype view = LoginView | MainView | BatchResolutionView | SummaryView

record app_state =
  currentView :: view
  userInfo :: "user_info option"
  sessionToken :: "string option"
  batchResolution :: "resolution option"
  pendingUploadData :: "pending_upload option"
  summaryMessage :: "string option"
  summaryDetails :: "upload_summary option"
  alerts :: "string list"

text \<open>\<^verbatim>\<open>handleShowBatchResolution\<close> (lines 31-35).\<close>

definition handleShowBatchResolution :: "resolution \<Rightarrow> pending_upload \<Rightarrow> app_state \<Rightarrow> app_state" where
  "handleShowBatchResolution res uploadData app =
     app\<lparr>batchResolution := Some res,
         pendingUploadData := Some uploadData,
         currentView := BatchResolutionView\<rparr>"

text \<open>\<^verbatim>\<open>handleUploadSuccess\<close> (lines 108-112).\<close>

definition handleUploadSuccess ::
  "string option \<Rightarrow> upload_summary option \<Rightarrow> app_state \<Rightarrow> app_state" where
  "handleUploadSuccess msg summ app =
     app\<lparr>summaryMessage := msg, summaryDetails := summ, currentView := SummaryView\<rparr>"

text \<open>
  The props the App gives \<^verbatim>\<open>MainForm\<close> (lines 141-145): \<^verbatim>\<open>onUploadSuccess\<close> is
  \<^verbatim>\<open>handleUploadSuccess\<close> and \<^verbatim>\<open>onShowBatchResolution\<close> is \<^verbatim>\<open>handleShowBatchResolution\<close>.
\<close>

fun parentCallback :: "parent_callback \<Rightarrow> app_state \<Rightarrow> app_state" where
  "parentCallback (OnShowBatchResolution res uploadData) app =
     handleShowBatchResolution res uploadData app"
| "parentCallback (OnUploadSuccess msg summ) app = handleUploadSuccess msg summ app"

text \<open>The Upload button inside the App: the form, the App and the requests after one click.\<close>

definition submitUpload ::
  "resolve_fn \<Rightarrow> upload_fn \<Rightarrow> user_info \<Rightarrow> main_form \<Rightarrow> app_state
     \<Rightarrow> main_form \<times> app_state \<times> net_call list" where
  "submitUpload resolveBatch upload u st app =
     (let out = handleUpload resolveBatch upload u st
      in (form out,
          (case callback out of None \<Rightarrow> app | Some cb \<Rightarrow> parentCallback cb app),
          calls out))"

text \<open>
  The body shared by \<^verbatim>\<open>handleBatchResolved\<close> (lines 38-70) and
  \<^verbatim>\<open>handleBatchResolutionCancel\<close> (lines 73-105): the two differ only in the value of
  \<open>batch_id\<close>. Reading a property of \<^verbatim>\<open>null\<close> throws inside the \<^verbatim>\<open>try\<close>, before any
  request is sent (the message text follows V8's, without its quotation marks).
\<close>

definition uploadPending :: "upload_fn \<Rightarrow> string option \<Rightarrow> app_state \<Rightarrow> app_state \<times> net_call list" where
  "uploadPending upload bid app =
     (let attempt =
            (case userInfo app of
               None \<Rightarrow> (Threw (TypeError ''Cannot read properties of null (reading email)''), [])
             | Some u \<Rightarrow>
                 (case pendingUploadData app of
                    None \<Rightarrow> (Threw (TypeError ''Cannot read properties of null (reading project)''), [])
                  | Some p \<Rightarrow>
                      let uploadData =
                            \<lparr>email = u_email u,
                             orcid = u_orcid u,
                             user_name = u_name u,
                             project = p_project p,
                             synthesis_type = p_synthesisType p,
                             batch_id = bid,
                             data = p_data p\<rparr>
                      in (upload uploadData, [UploadCall uploadData])));
          app' =
            (case fst attempt of
               Returned response \<Rightarrow>
                 if success response then
                   app\<lparr>summaryMessage := message response,
                       summaryDetails := summary response,
                       currentView := SummaryView\<rparr>
                 else
                   app\<lparr>alerts := alerts app @ [''Upload failed: '' @ toStr (message response)],
                       currentView := MainView\<rparr>
             | Threw err \<Rightarrow>
                 app\<lparr>alerts := alerts app @ [''Upload error: '' @ orElse (detail err) (message_of err)],
                     currentView := MainView\<rparr>)
      in (app'\<lparr>batchResolution := None, pendingUploadData := None\<rparr>, snd attempt))"


definition handleBatchResolutionCancel :: "upload_fn \<Rightarrow> app_state \<Rightarrow> app_state \<times> net_call list" where
  "handleBatchResolutionCancel upload app = uploadPending upload None app"

section \<open>BatchResolution.jsx\<close>

text \<open>
  The component state: \<open>selectedBatch\<close>, \<open>batchName\<close>, \<open>batchId\<close> (here \<open>newBatchId\<close>),
  \<open>batchDescription\<close>, \<open>loading\<close> (here \<open>creating\<close>) and \<open>error\<close> (here \<open>formError\<close>).
\<close>

record resolution_form =
  selectedBatch :: string
  batchName :: string
  newBatchId :: string
  batchDescription :: string
  creating :: bool
  formError :: string


text \<open>
  The values of the options of the batch select (lines 152-159): the empty placeholder, then
  one option per match. Its \<^verbatim>\<open>onChange\<close> (line 150) is the only writer of \<^verbatim>\<open>selectedBatch\<close>
  and passes the value of the option chosen.
\<close>

definition batchSelectOptions :: "resolution \<Rightarrow> string list" where
  "batchSelectOptions res = [] # map unique_id (matches res)"

definition handleSelectChange :: "string \<Rightarrow> resolution_form \<Rightarrow> resolution_form" where
  "handleSelectChange v st = st\<lparr>selectedBatch := v\<rparr>"

text \<open>
  \<^verbatim>\<open>handleCreateBatch\<close> (lines 13-49), with the \<open>project\<close> prop as the App passes it
  (\<^verbatim>\<open>pendingUploadData?.project\<close>): the new form state, the requests sent, and the argument of
  \<^verbatim>\<open>onResolve\<close> when it is called.
\<close>

definition handleCreateBatch ::
  "create_fn \<Rightarrow> user_info \<Rightarrow> string option \<Rightarrow> resolution_form
     \<Rightarrow> resolution_form \<times> net_call list \<times> string option option" where
  "handleCreateBatch createBatch u prj st0 =
     (let st = st0\<lparr>formError := []\<rparr>
      in if trim (batchName st) = [] then
           (st\<lparr>formError := ''Batch name is required''\<rparr>, [], None)
         else if trim (newBatchId st) = [] then
           (st\<lparr>formError := ''Batch ID is required''\<rparr>, [], None)
         else
           let st = st\<lparr>creating := True\<rparr>;
               batchData = \<lparr>batch_name = batchName st,
                            new_batch_id = newBatchId st,
                            batch_description = batchDescription st,
                            c_orcid = u_orcid u,
                            c_project = prj\<rparr>
           in case createBatch batchData of
                Returned response \<Rightarrow>
                  if c_success response then
                    (st\<lparr>creating := False\<rparr>, [CreateBatchCall batchData],
                     Some (c_unique_id response))
                  else
                    (st\<lparr>formError := orElse (c_message response) ''Failed to create batch'',
                        creating := False\<rparr>,
                     [CreateBatchCall batchData], None)
              | Threw err \<Rightarrow>
                  (st\<lparr>formError := orElse (detail err) ''An error occurred while creating the batch'',
                      creating := False\<rparr>,
                   [CreateBatchCall batchData], None))"

text \<open>
  \<^verbatim>\<open>handleSelectBatch\<close> (lines 52-63): the new form state and the argument of
  \<^verbatim>\<open>onResolve\<close> when it is called.
\<close>

definition handleSelectBatch :: "resolution \<Rightarrow> resolution_form \<Rightarrow> resolution_form \<times> string option" where
  "handleSelectBatch res st =
     (if selectedBatch st = [] then
        (st\<lparr>formError := ''Please select a batch from the list''\<rparr>, None)
      else
        (case find (\<lambda>m. unique_id m = selectedBatch st) (matches res) of
           Some m \<Rightarrow> (st, Some (unique_id m))
         | None \<Rightarrow> (st, None)))"


section \<open>The editing session of one table\<close>

text \<open>
  The effect of lines 27-33 when the table is mounted: for a schema with fields, \<^verbatim>\<open>rows\<close> is
  emptied and the parent is told so. \<^verbatim>\<open>MainForm\<close> keeps the latest notification in
  \<^verbatim>\<open>tableData\<close>, which starts as \<^verbatim>\<open>[]\<close> (part_000 lines 10 and 187).
\<close>

definition mountTable :: "string list \<Rightarrow> table_state" where
  "mountTable flds =
     (if length flds > 0 then \<lparr>rows = [], notified = [[]]\<rparr> else \<lparr>rows = [], notified = []\<rparr>)"

definition parentTableData :: "table_state \<Rightarrow> row list" where
  "parentTableData st = (if notified st = [] then [] else last (notified st))"

datatype table_event = RowsChange "row list" | Paste string | AddRow | RemoveRow | ClearAll

fun tableStep :: "string list \<Rightarrow> string \<Rightarrow> table_event \<Rightarrow> table_state \<Rightarrow> table_state" where
  "tableStep flds operatorName (RowsChange newRows) st = handleRowsChange flds newRows st"
| "tableStep flds operatorName (Paste pastedData) st = handlePaste flds operatorName pastedData st"
| "tableStep flds operatorName AddRow st = handleAddRow flds operatorName st"
| "tableStep flds operatorName RemoveRow st = handleRemoveRow flds st"
| "tableStep flds operatorName ClearAll st = handleClearAll flds operatorName st"

section \<open>The specification's vocabulary\<close>

text \<open>A value that is empty or whitespace-only; a property the row does not have is empty.\<close>

definition emptyOrWhitespace :: "string option \<Rightarrow> bool" where
  "emptyOrWhitespace v = (case v of None \<Rightarrow> True | Some s \<Rightarrow> list_all is_ws s)"

text \<open>A row in which every schema field is empty or whitespace-only.\<close>

definition everyFieldEmpty :: "string list \<Rightarrow> row \<Rightarrow> bool" where
  "everyFieldEmpty flds r = list_all (\<lambda>f. emptyOrWhitespace (r f)) flds"

text \<open>A schema none of whose field names is a property name that every object inherits.\<close>

definition plainSchema :: "string list \<Rightarrow> bool" where
  "plainSchema flds = list_all (\<lambda>f. f \<notin> set objectPrototypeProps) flds"

text \<open>A line that is entirely whitespace.\<close>

definition blankLine :: "string \<Rightarrow> bool" where
  "blankLine l = list_all is_ws l"

text \<open>What the parent holds is the cleaned view of what the table holds.\<close>

definition tableInv :: "string list \<Rightarrow> table_state \<Rightarrow> bool" where
  "tableInv flds st \<longleftrightarrow> parentTableData st = cleanedRows flds (rows st)"

section \<open>Concrete sessions\<close>

text \<open>Scenario A: two tab-delimited lines pasted under the schema Sample Name, Concentration.\<close>

definition lineAlpha :: string where
  "lineAlpha = ''Alpha'' @ [CHR 0x09] @ ''2024-01-01''"

definition lineBeta :: string where
  "lineBeta = ''Beta'' @ [CHR 0x09] @ ''2024-01-02''"

definition scenarioA_text :: string where
  "scenarioA_text = lineAlpha @ [CHR 0x0A] @ lineBeta"

definition scenarioA_schema :: "string list" where
  "scenarioA_schema = [''Sample Name'', ''Concentration'']"

text \<open>Scenario D: one row with nothing but Operator and Timestamp, one populated row.\<close>

definition scenarioD_schema :: "string list" where
  "scenarioD_schema = [''Sample Name'']"

definition rowBlank :: row where
  "rowBlank = [''id'' \<mapsto> ''row-0'', ''Timestamp'' \<mapsto> ''2024-01-01'', ''Operator'' \<mapsto> ''Ada'',
               ''Sample Name'' \<mapsto> ''  '']"

definition rowFilled :: row where
  "rowFilled = [''id'' \<mapsto> ''row-1'', ''Timestamp'' \<mapsto> [], ''Operator'' \<mapsto> ''Ada'',
                ''Sample Name'' \<mapsto> ''S1'']"

text \<open>A schema that lists Operator as a field, and a row filled in for Operator alone.\<close>

definition operatorSchema :: "string list" where
  "operatorSchema = [''Operator'', ''Concentration'']"

definition operatorOnlyRow :: row where
  "operatorOnlyRow = [''id'' \<mapsto> ''row-0'', ''Timestamp'' \<mapsto> [], ''Operator'' \<mapsto> ''Ada'',
                      ''Concentration'' \<mapsto> []]"

text \<open>An operator, a filled-in form, and backends that answer the same way to every request.\<close>

definition demoUser :: user_info where
  "demoUser = \<lparr>u_name = ''Ada'', u_email = ''ada@lab.org'', u_orcid = ''0000-0001'',
               u_projects = [''P1'']\<rparr>"

definition demoRow :: row where
  "demoRow = [''Timestamp'' \<mapsto> [], ''Operator'' \<mapsto> ''Ada'', ''Sample Name'' \<mapsto> ''S1'']"

definition demoForm :: main_form where
  "demoForm = \<lparr>selectedProject = ''P1'', selectedSynthesisType = ''Solid Precursor'',
               batchId = ''B-404'', tableData = [demoRow], loading = False, error = []\<rparr>"

text \<open>The same form with two spaces typed as the batch identifier.\<close>

definition spacesForm :: main_form where
  "spacesForm = demoForm\<lparr>batchId := ''  ''\<rparr>"

definition loggedIn :: app_state where
  "loggedIn =
     \<lparr>currentView = MainView, userInfo = Some demoUser, sessionToken = Some ''t0'',
      batchResolution = None, pendingUploadData = None,
      summaryMessage = Some [], summaryDetails = None, alerts = []\<rparr>"

definition notFound :: "string \<Rightarrow> resolution" where
  "notFound q = \<lparr>status = ''not_found'', r_batch_id = None, input = Some q, matches = []\<rparr>"

definition resolveNotFound :: resolve_fn where
  "resolveNotFound q oid prj = Returned (notFound q)"

definition acceptUpload :: upload_fn where
  "acceptUpload payload = Returned \<lparr>success = True, message = Some ''Uploaded'', summary = None\<rparr>"

definition rejectUpload :: upload_fn where
  "rejectUpload payload = Returned \<lparr>success = False, message = Some ''Rejected'', summary = None\<rparr>"

definition demoPending :: pending_upload where
  "demoPending = \<lparr>p_project = ''P1'', p_synthesisType = ''Solid Precursor'', p_data = [demoRow]\<rparr>"

definition demoSuspended :: app_state where
  "demoSuspended =
     \<lparr>currentView = BatchResolutionView, userInfo = Some demoUser, sessionToken = Some ''t0'',
      batchResolution = Some (notFound ''B-404''), pendingUploadData = Some demoPending,
      summaryMessage = Some [], summaryDetails = None, alerts = []\<rparr>"


section \<open>Strings\<close>

lemma trim_Nil_iff: "trim s = [] \<longleftrightarrow> (\<forall>c\<in>set s. is_ws c)"
proof
  assume "trim s = []"
  then have all: "\<forall>c\<in>set (dropWhile is_ws s). is_ws c"
    by (simp add: trim_def dropWhile_eq_Nil_conv)
  have "dropWhile is_ws s = []"
  proof (rule ccontr)
    assume ne: "dropWhile is_ws s \<noteq> []"
    then have "\<not> is_ws (hd (dropWhile is_ws s))" by (rule hd_dropWhile)
    moreover have "hd (dropWhile is_ws s) \<in> set (dropWhile is_ws s)" using ne by simp
    ultimately show False using all by blast
  qed
  then show "\<forall>c\<in>set s. is_ws c" by (simp add: dropWhile_eq_Nil_conv)
next
  assume a: "\<forall>c\<in>set s. is_ws c"
  have d: "dropWhile is_ws s = []" using a by simp
  show "trim s = []" unfolding trim_def d by simp
qed

lemma trim_blankLine: "trim l = [] \<longleftrightarrow> blankLine l"
  by (simp add: trim_Nil_iff blankLine_def list_all_iff)

lemma split_on_append:
  "sep \<notin> set xs \<Longrightarrow> split_on sep (xs @ sep # ys) = xs # split_on sep ys"
  by (induction xs) auto

lemma split_on_none: "sep \<notin> set xs \<Longrightarrow> split_on sep xs = [xs]"
  by (induction xs) auto

lemma show_nat_small: "show_nat 0 = ''0''" "show_nat (Suc 0) = ''1''"
  by (simp_all add: show_nat.simps digit_char_def)


section \<open>Column order\<close>






section \<open>Pasting\<close>

lemma length_pasteNewRows: "length (pasteNewRows flds operatorName n ls) = length ls"
  by (simp add: pasteNewRows_def)

lemma scenarioA_lines: "pastedRowsOf scenarioA_text = [lineAlpha, lineBeta]"
proof -
  have "split_on CHR 0x0A scenarioA_text = [lineAlpha, lineBeta]"
    by (simp add: scenarioA_text_def split_on_append split_on_none lineAlpha_def lineBeta_def)
  moreover have "trim lineAlpha \<noteq> []" "trim lineBeta \<noteq> []"
    by (simp_all add: trim_def is_ws_def lineAlpha_def lineBeta_def)
  ultimately show ?thesis by (simp add: pastedRowsOf_def)
qed

lemma scenarioA_cells:
  "parseLine lineAlpha = [''Alpha'', ''2024-01-01'']"
  "parseLine lineBeta = [''Beta'', ''2024-01-02'']"
  by (simp_all add: parseLine_def includesChar_def trim_def is_ws_def lineAlpha_def lineBeta_def)

lemma scenarioA_order:
  "columnOrder scenarioA_schema = [''Sample Name'', ''Operator'', ''Timestamp'', ''Concentration'']"
  by (simp add: columnOrder_def truthy_def scenarioA_schema_def)

lemma blankRow_A:
  "blankRow scenarioA_schema operatorName rid
     = [''id'' \<mapsto> rid, ''Timestamp'' \<mapsto> [], ''Operator'' \<mapsto> operatorName,
        ''Sample Name'' \<mapsto> [], ''Concentration'' \<mapsto> []]"
  by (simp add: blankRow_def setProp_def scenarioA_schema_def)

lemma assignCells_A:
  "assignCells [''Sample Name'', ''Operator'', ''Timestamp'', ''Concentration''] [a, b] r
     = r(''Sample Name'' \<mapsto> a, ''Operator'' \<mapsto> b)"
  by (simp add: assignCells_def setProp_def)

lemma row_A:
  "assignCells [''Sample Name'', ''Operator'', ''Timestamp'', ''Concentration''] [a, b]
     (blankRow scenarioA_schema operatorName rid)
   = [''id'' \<mapsto> rid, ''Sample Name'' \<mapsto> a, ''Operator'' \<mapsto> b,
      ''Timestamp'' \<mapsto> [], ''Concentration'' \<mapsto> []]"
  by (rule ext) (simp add: assignCells_A blankRow_A)

lemma scenarioA_rows:
  "pasteNewRows scenarioA_schema operatorName 0 [lineAlpha, lineBeta]
     = [[''id'' \<mapsto> ''row-0'', ''Sample Name'' \<mapsto> ''Alpha'', ''Operator'' \<mapsto> ''2024-01-01'',
         ''Timestamp'' \<mapsto> [], ''Concentration'' \<mapsto> []],
        [''id'' \<mapsto> ''row-1'', ''Sample Name'' \<mapsto> ''Beta'', ''Operator'' \<mapsto> ''2024-01-02'',
         ''Timestamp'' \<mapsto> [], ''Concentration'' \<mapsto> []]]"
  unfolding pasteNewRows_def Let_def scenarioA_order
  by (simp add: scenarioA_cells row_A show_nat_small del: fun_upd_apply)

text \<open>
  C5, as the code has it. Cells are assigned by position in the column order Sample Name,
  Operator, Timestamp, Concentration, so the second cell of a line lands in Operator. Pasting
  the two lines of scenario A into an empty table gives exactly two rows, with identifiers
  row-0 and row-1: Sample Name Alpha, Operator 2024-01-01, Timestamp empty, Concentration
  empty, and Sample Name Beta, Operator 2024-01-02, Timestamp empty, Concentration empty,
  whatever the current operator's name is.
\<close>

theorem paste_scenario_A:
  "rows (handlePaste scenarioA_schema operatorName scenarioA_text \<lparr>rows = [], notified = ns\<rparr>)
     = [[''id'' \<mapsto> ''row-0'', ''Sample Name'' \<mapsto> ''Alpha'', ''Operator'' \<mapsto> ''2024-01-01'',
         ''Timestamp'' \<mapsto> [], ''Concentration'' \<mapsto> []],
        [''id'' \<mapsto> ''row-1'', ''Sample Name'' \<mapsto> ''Beta'', ''Operator'' \<mapsto> ''2024-01-02'',
         ''Timestamp'' \<mapsto> [], ''Concentration'' \<mapsto> []]]"
  by (simp add: handlePaste_def Let_def scenarioA_lines scenarioA_rows del: fun_upd_apply)

text \<open>
  C5 as stated fails: with the operator Ada, the first pasted row has Operator 2024-01-01, not
  Ada, and an empty Timestamp, not 2024-01-01.
\<close>

theorem paste_scenario_A_counterexample:
  "(rows (handlePaste scenarioA_schema ''Ada'' scenarioA_text \<lparr>rows = [], notified = []\<rparr>) ! 0)
      ''Operator'' = Some ''2024-01-01''
   \<and> (rows (handlePaste scenarioA_schema ''Ada'' scenarioA_text \<lparr>rows = [], notified = []\<rparr>) ! 0)
      ''Operator'' \<noteq> Some ''Ada''
   \<and> (rows (handlePaste scenarioA_schema ''Ada'' scenarioA_text \<lparr>rows = [], notified = []\<rparr>) ! 0)
      ''Timestamp'' = Some []
   \<and> (rows (handlePaste scenarioA_schema ''Ada'' scenarioA_text \<lparr>rows = [], notified = []\<rparr>) ! 0)
      ''Timestamp'' \<noteq> Some ''2024-01-01''"
  by (simp add: handlePaste_def Let_def scenarioA_lines scenarioA_rows)

text \<open>
  C7. A paste keeps every existing row in place and appends as many rows as the text has
  lines that are not entirely whitespace; pasting the empty text changes nothing and raises
  nothing (the handler is a total function of the text).
\<close>

theorem paste_appends:
  "(\<exists>newRows. rows (handlePaste flds operatorName pastedData st) = rows st @ newRows
       \<and> length newRows = length (filter (\<lambda>l. \<not> blankLine l) (split_on CHR 0x0A pastedData)))
   \<and> handlePaste flds operatorName [] st = st"
proof
  let ?ls = "pastedRowsOf pastedData"
  have len: "length ?ls = length (filter (\<lambda>l. \<not> blankLine l) (split_on CHR 0x0A pastedData))"
    by (simp add: pastedRowsOf_def trim_blankLine)
  show "\<exists>newRows. rows (handlePaste flds operatorName pastedData st) = rows st @ newRows
       \<and> length newRows = length (filter (\<lambda>l. \<not> blankLine l) (split_on CHR 0x0A pastedData))"
  proof (cases "?ls = []")
    case True
    then have "rows (handlePaste flds operatorName pastedData st) = rows st @ []"
      by (simp add: handlePaste_def)
    moreover have "length ([] :: row list)
        = length (filter (\<lambda>l. \<not> blankLine l) (split_on CHR 0x0A pastedData))"
      using True len by simp
    ultimately show ?thesis by blast
  next
    case False
    then have "rows (handlePaste flds operatorName pastedData st)
        = rows st @ pasteNewRows flds operatorName (length (rows st)) ?ls"
      by (simp add: handlePaste_def Let_def)
    moreover have "length (pasteNewRows flds operatorName (length (rows st)) ?ls)
        = length (filter (\<lambda>l. \<not> blankLine l) (split_on CHR 0x0A pastedData))"
      using len by (simp add: length_pasteNewRows)
    ultimately show ?thesis by blast
  qed
next
  show "handlePaste flds operatorName [] st = st"
    by (simp add: handlePaste_def pastedRowsOf_def trim_def)
qed

text \<open>Pasting the two lines of scenario A below one existing row gives three rows, the old one first.\<close>

theorem paste_appends_witness:
  "length (rows (handlePaste scenarioA_schema ''Ada'' scenarioA_text
                   \<lparr>rows = [rowFilled], notified = []\<rparr>)) = 3
   \<and> hd (rows (handlePaste scenarioA_schema ''Ada'' scenarioA_text
                 \<lparr>rows = [rowFilled], notified = []\<rparr>)) = rowFilled"
proof -
  have two: "length (filter (\<lambda>l. \<not> blankLine l) (split_on CHR 0x0A scenarioA_text)) = 2"
    using scenarioA_lines by (simp add: pastedRowsOf_def trim_blankLine)
  from paste_appends [of scenarioA_schema "''Ada''" scenarioA_text
                         "\<lparr>rows = [rowFilled], notified = []\<rparr>"]
  obtain newRows where
    "rows (handlePaste scenarioA_schema ''Ada'' scenarioA_text \<lparr>rows = [rowFilled], notified = []\<rparr>)
       = [rowFilled] @ newRows"
    and "length newRows = 2"
    using two by auto
  then show ?thesis by simp
qed

section \<open>The cleaned view\<close>

lemma plainSchema_member:
  "plainSchema flds \<Longrightarrow> f \<in> set flds \<Longrightarrow> f \<notin> set objectPrototypeProps"
  by (simp add: plainSchema_def list_all_iff)

lemma plainSchema_proto: "plainSchema flds \<Longrightarrow> f \<in> set flds \<Longrightarrow> f \<noteq> ''__proto__''"
  by (auto simp: plainSchema_def list_all_iff objectPrototypeProps_def)

lemma hasValue_own:
  "f \<notin> set objectPrototypeProps \<Longrightarrow> hasValue r f \<longleftrightarrow> \<not> emptyOrWhitespace (r f)"
  by (cases "r f")
     (auto simp: hasValue_def getProp_def trim_Nil_iff emptyOrWhitespace_def list_all_iff)

lemma keeps_iff_not_empty:
  assumes "plainSchema flds"
  shows "list_ex (\<lambda>field. hasValue r field) flds \<longleftrightarrow> \<not> everyFieldEmpty flds r"
proof -
  have "\<And>f. f \<in> set flds \<Longrightarrow> hasValue r f \<longleftrightarrow> \<not> emptyOrWhitespace (r f)"
    using assms by (simp add: hasValue_own plainSchema_member)
  then show ?thesis
    by (auto simp: list_ex_iff everyFieldEmpty_def list_all_iff)
qed

lemma nonEmptyRows_spec:
  "plainSchema flds \<Longrightarrow> nonEmptyRows flds rs = filter (\<lambda>r. \<not> everyFieldEmpty flds r) rs"
  by (simp add: nonEmptyRows_def keeps_iff_not_empty)

lemma cleanedRows_spec:
  "plainSchema flds \<Longrightarrow>
   cleanedRows flds rs
     = map (\<lambda>r. r(''id'' := None)) (filter (\<lambda>r. \<not> everyFieldEmpty flds r) rs)"
  by (simp add: cleanedRows_def nonEmptyRows_spec stripId_def)

lemma cleanedRows_append:
  "cleanedRows flds (xs @ ys) = cleanedRows flds xs @ cleanedRows flds ys"
  by (simp add: cleanedRows_def nonEmptyRows_def)

lemma fold_blank_field:
  "f \<noteq> ''__proto__'' \<Longrightarrow> f \<in> set fs \<or> r f = Some [] \<Longrightarrow>
   fold (\<lambda>field r. setProp r field []) fs r f = Some []"
  by (induction fs arbitrary: r) (auto simp: setProp_def)

lemma everyFieldEmpty_blanked:
  "plainSchema flds \<Longrightarrow> everyFieldEmpty flds (fold (\<lambda>field r. setProp r field []) flds r)"
  by (simp add: everyFieldEmpty_def list_all_iff fold_blank_field plainSchema_proto
      emptyOrWhitespace_def)

lemma cleanedRows_blankRow:
  "plainSchema flds \<Longrightarrow> cleanedRows flds [blankRow flds operatorName rid] = []"
  by (simp add: cleanedRows_spec blankRow_def everyFieldEmpty_blanked)

lemma cleanedRows_cleared:
  "plainSchema flds \<Longrightarrow>
   cleanedRows flds (map (\<lambda>r. fold (\<lambda>field r'. setProp r' field []) flds (g r)) rs) = []"
  by (simp add: cleanedRows_spec everyFieldEmpty_blanked filter_empty_conv)

lemma tableInv_mount: "tableInv flds (mountTable flds)"
  by (simp add: tableInv_def mountTable_def parentTableData_def cleanedRows_def nonEmptyRows_def)

lemma tableInv_step:
  assumes plain: "plainSchema flds" and inv: "tableInv flds st"
  shows "tableInv flds (tableStep flds operatorName ev st)"
proof (cases ev)
  case (RowsChange newRows)
  then show ?thesis by (simp add: tableInv_def handleRowsChange_def parentTableData_def)
next
  case (Paste pastedData)
  then show ?thesis using inv
    by (auto simp: tableInv_def handlePaste_def parentTableData_def Let_def split: if_splits)
next
  case AddRow
  then show ?thesis using inv plain
    by (auto simp: tableInv_def handleAddRow_def parentTableData_def cleanedRows_append
        cleanedRows_blankRow split: if_splits)
next
  case RemoveRow
  then show ?thesis using inv
    by (auto simp: tableInv_def handleRemoveRow_def parentTableData_def Let_def split: if_splits)
next
  case ClearAll
  then show ?thesis using plain
    by (simp add: tableInv_def handleClearAll_def parentTableData_def Let_def cleanedRows_cleared)
qed

lemma tableInv_fold:
  "plainSchema flds \<Longrightarrow> tableInv flds st \<Longrightarrow>
   tableInv flds (fold (tableStep flds operatorName) evs st)"
  by (induction evs arbitrary: st) (simp_all add: tableInv_step)

text \<open>
  What the prototype does outside plain schemas: a field named like an inherited property
  counts as filled in for a row that has no own value for it, and a field named \<open>__proto__\<close>
  is not even blanked in a fresh row.
\<close>

lemma inherited_field_counts: "hasValue Map.empty ''constructor''"
  by (simp add: hasValue_def getProp_def objectPrototypeProps_def)

lemma proto_field_not_blanked:
  "blankRow [''__proto__''] operatorName rid ''__proto__'' = None
   \<and> hasValue (blankRow [''__proto__''] operatorName rid) ''__proto__''"
  by (simp add: blankRow_def setProp_def hasValue_def getProp_def objectPrototypeProps_def)

text \<open>
  C6, as the code has it. Take a schema none of whose field names is a property name that
  every object inherits. After any sequence of edits, pastes, added, removed and cleared
  rows, what the parent holds for submission is the table's rows in order, each without its
  \<open>id\<close>, leaving out exactly the rows in which every schema field is empty or
  whitespace-only; this is what \<^verbatim>\<open>handleRowsChange\<close> sends. Only the schema's fields are
  tested. When the schema lists none of Operator, Timestamp and \<open>id\<close>, a row whose only
  non-blank values are those is left out; any field the schema does list, Operator and
  Timestamp included, keeps the row when its value is not blank.
\<close>

theorem cleaned_snapshot:
  assumes plain: "plainSchema flds"
  shows
  "parentTableData (fold (tableStep flds operatorName) evs (mountTable flds))
     = map (\<lambda>r. r(''id'' := None))
         (filter (\<lambda>r. \<not> everyFieldEmpty flds r)
            (rows (fold (tableStep flds operatorName) evs (mountTable flds))))
   \<and> notified (handleRowsChange flds newRows st)
     = notified st
       @ [map (\<lambda>r. r(''id'' := None)) (filter (\<lambda>r. \<not> everyFieldEmpty flds r) newRows)]
   \<and> (''Operator'' \<notin> set flds \<and> ''Timestamp'' \<notin> set flds \<and> ''id'' \<notin> set flds
        \<and> (\<forall>k. k \<noteq> ''Operator'' \<and> k \<noteq> ''Timestamp'' \<and> k \<noteq> ''id''
               \<longrightarrow> emptyOrWhitespace (r k))
      \<longrightarrow> notified (handleRowsChange flds [r] st) = notified st @ [[]])
   \<and> (f \<in> set flds \<and> \<not> emptyOrWhitespace (r f)
      \<longrightarrow> notified (handleRowsChange flds [r] st) = notified st @ [[r(''id'' := None)]])"
proof (intro conjI impI)
  have "tableInv flds (fold (tableStep flds operatorName) evs (mountTable flds))"
    using plain by (rule tableInv_fold) (rule tableInv_mount)
  then show "parentTableData (fold (tableStep flds operatorName) evs (mountTable flds))
     = map (\<lambda>r. r(''id'' := None))
         (filter (\<lambda>r. \<not> everyFieldEmpty flds r)
            (rows (fold (tableStep flds operatorName) evs (mountTable flds))))"
    using plain by (simp add: tableInv_def cleanedRows_spec)
next
  show "notified (handleRowsChange flds newRows st)
     = notified st
       @ [map (\<lambda>r. r(''id'' := None)) (filter (\<lambda>r. \<not> everyFieldEmpty flds r) newRows)]"
    using plain by (simp add: handleRowsChange_def cleanedRows_spec)
next
  assume a: "''Operator'' \<notin> set flds \<and> ''Timestamp'' \<notin> set flds \<and> ''id'' \<notin> set flds
        \<and> (\<forall>k. k \<noteq> ''Operator'' \<and> k \<noteq> ''Timestamp'' \<and> k \<noteq> ''id''
               \<longrightarrow> emptyOrWhitespace (r k))"
  then have "everyFieldEmpty flds r"
    unfolding everyFieldEmpty_def list_all_iff by metis
  then show "notified (handleRowsChange flds [r] st) = notified st @ [[]]"
    using plain by (simp add: handleRowsChange_def cleanedRows_spec)
next
  assume "f \<in> set flds \<and> \<not> emptyOrWhitespace (r f)"
  then have "\<not> everyFieldEmpty flds r"
    unfolding everyFieldEmpty_def list_all_iff by blast
  then show "notified (handleRowsChange flds [r] st) = notified st @ [[r(''id'' := None)]]"
    using plain by (simp add: handleRowsChange_def cleanedRows_spec)
qed

text \<open>
  Scenario D: of a row holding only Operator, Timestamp and spaces and a populated row, the
  parent receives the populated row alone; the first row on its own gives an empty view, the
  second on its own is sent.
\<close>

theorem cleaned_snapshot_witness:
  "plainSchema scenarioD_schema
   \<and> parentTableData (fold (tableStep scenarioD_schema ''Ada'')
                      [AddRow, RowsChange [rowBlank, rowFilled]] (mountTable scenarioD_schema))
     = [rowFilled(''id'' := None)]
   \<and> ''Operator'' \<notin> set scenarioD_schema \<and> ''Timestamp'' \<notin> set scenarioD_schema
   \<and> notified (handleRowsChange scenarioD_schema [rowBlank] \<lparr>rows = [], notified = []\<rparr>) = [[]]
   \<and> notified (handleRowsChange scenarioD_schema [rowFilled] \<lparr>rows = [], notified = []\<rparr>)
     = [[rowFilled(''id'' := None)]]"
proof -
  have plain: "plainSchema scenarioD_schema"
    by (simp add: plainSchema_def scenarioD_schema_def objectPrototypeProps_def)
  have blank: "everyFieldEmpty scenarioD_schema rowBlank"
    by (simp add: everyFieldEmpty_def scenarioD_schema_def rowBlank_def emptyOrWhitespace_def
        is_ws_def)
  have filled: "\<not> everyFieldEmpty scenarioD_schema rowFilled"
    by (simp add: everyFieldEmpty_def scenarioD_schema_def rowFilled_def emptyOrWhitespace_def
        is_ws_def)
  have others: "\<forall>k. k \<noteq> ''Operator'' \<and> k \<noteq> ''Timestamp'' \<and> k \<noteq> ''id''
                    \<longrightarrow> emptyOrWhitespace (rowBlank k)"
    by (simp add: rowBlank_def emptyOrWhitespace_def is_ws_def)
  have held: "rows (fold (tableStep scenarioD_schema ''Ada'')
                      [AddRow, RowsChange [rowBlank, rowFilled]] (mountTable scenarioD_schema))
              = [rowBlank, rowFilled]"
    by (simp add: handleRowsChange_def)
  have schema: "''Operator'' \<notin> set scenarioD_schema \<and> ''Timestamp'' \<notin> set scenarioD_schema
                  \<and> ''id'' \<notin> set scenarioD_schema"
    by (simp add: scenarioD_schema_def)
  have own: "''Sample Name'' \<in> set scenarioD_schema
               \<and> \<not> emptyOrWhitespace (rowFilled ''Sample Name'')"
    by (simp add: scenarioD_schema_def rowFilled_def emptyOrWhitespace_def is_ws_def)
  have first: "parentTableData (fold (tableStep scenarioD_schema ''Ada'')
                      [AddRow, RowsChange [rowBlank, rowFilled]] (mountTable scenarioD_schema))
     = [rowFilled(''id'' := None)]
     \<and> notified (handleRowsChange scenarioD_schema [rowBlank] \<lparr>rows = [], notified = []\<rparr>) = [[]]"
    using cleaned_snapshot [OF plain, of "''Ada''"
            "[AddRow, RowsChange [rowBlank, rowFilled]]" "[rowBlank]"
            "\<lparr>rows = [], notified = []\<rparr>" rowBlank "''Sample Name''"]
    unfolding held using blank filled others schema by simp
  have second: "notified (handleRowsChange scenarioD_schema [rowFilled] \<lparr>rows = [], notified = []\<rparr>)
     = [[rowFilled(''id'' := None)]]"
    using cleaned_snapshot [OF plain, of "''Ada''" "[]" "[]"
            "\<lparr>rows = [], notified = []\<rparr>" rowFilled "''Sample Name''"] own
    by simp
  show ?thesis using plain schema first second by simp
qed

text \<open>
  C6 as stated fails for a schema that lists Operator: a row whose only non-blank value
  (apart from its \<open>id\<close>) is Operator is kept in the view the parent receives.
\<close>

theorem cleaned_snapshot_counterexample:
  "operatorOnlyRow ''Operator'' = Some ''Ada''
   \<and> operatorOnlyRow ''Timestamp'' = Some []
   \<and> operatorOnlyRow ''Concentration'' = Some []
   \<and> parentTableData (fold (tableStep operatorSchema ''Ada'')
                        [AddRow, RowsChange [operatorOnlyRow]] (mountTable operatorSchema))
     = [operatorOnlyRow(''id'' := None)]"
  by (simp add: operatorOnlyRow_def operatorSchema_def handleRowsChange_def parentTableData_def
      cleanedRows_def nonEmptyRows_def stripId_def hasValue_def getProp_def trim_def is_ws_def)

text \<open>
  C10. With no rows in the table, removing the last row changes neither the rows nor the
  list of notifications sent to the parent: the state is returned as it was.
\<close>

theorem remove_last_empty:
  "rows st = [] \<Longrightarrow> handleRemoveRow flds st = st"
  by (simp add: handleRemoveRow_def)

theorem remove_last_empty_witness:
  "rows (mountTable scenarioD_schema) = []
   \<and> handleRemoveRow scenarioD_schema (mountTable scenarioD_schema) = mountTable scenarioD_schema
   \<and> notified (handleRemoveRow scenarioD_schema (mountTable scenarioD_schema)) = [[]]"
proof -
  have h: "rows (mountTable scenarioD_schema) = []"
    by (simp add: mountTable_def)
  show ?thesis
    using h remove_last_empty [OF h, of scenarioD_schema]
    by (simp add: mountTable_def scenarioD_schema_def)
qed


section \<open>Submission\<close>

text \<open>
  C8. A submission with no project, else with no synthesis type, else with no cleaned rows
  stops at the first of these that fails, with that condition's own message (the three
  messages differ), sends no request and calls nothing on the parent; nothing else in the
  form changes.
\<close>

theorem validation_fails_fast:
  "(selectedProject st = [] \<longrightarrow>
      handleUpload resolveBatch upload u st
        = \<lparr>form = st\<lparr>error := ''Please select a project''\<rparr>, calls = [], callback = None\<rparr>)
   \<and> (selectedProject st \<noteq> [] \<and> selectedSynthesisType st = [] \<longrightarrow>
      handleUpload resolveBatch upload u st
        = \<lparr>form = st\<lparr>error := ''Please select a synthesis type''\<rparr>, calls = [], callback = None\<rparr>)
   \<and> (selectedProject st \<noteq> [] \<and> selectedSynthesisType st \<noteq> [] \<and> tableData st = [] \<longrightarrow>
      handleUpload resolveBatch upload u st
        = \<lparr>form = st\<lparr>error := ''Please enter at least one row of data''\<rparr>, calls = [],
           callback = None\<rparr>)
   \<and> distinct [''Please select a project'', ''Please select a synthesis type'',
                ''Please enter at least one row of data'']"
  by (simp add: handleUpload_def)

text \<open>
  The filled-in form with its project removed, then with its synthesis type removed (and no
  rows either), then with its rows removed: each stops with its own message and no request.
\<close>

theorem validation_fails_fast_witness:
  "handleUpload resolveNotFound acceptUpload demoUser (demoForm\<lparr>selectedProject := []\<rparr>)
     = \<lparr>form = demoForm\<lparr>selectedProject := [], error := ''Please select a project''\<rparr>,
        calls = [], callback = None\<rparr>
   \<and> handleUpload resolveNotFound acceptUpload demoUser
        (demoForm\<lparr>selectedSynthesisType := [], tableData := []\<rparr>)
     = \<lparr>form = demoForm\<lparr>selectedSynthesisType := [], tableData := [],
                          error := ''Please select a synthesis type''\<rparr>,
        calls = [], callback = None\<rparr>
   \<and> handleUpload resolveNotFound acceptUpload demoUser (demoForm\<lparr>tableData := []\<rparr>)
     = \<lparr>form = demoForm\<lparr>tableData := [], error := ''Please enter at least one row of data''\<rparr>,
        calls = [], callback = None\<rparr>"
  using validation_fails_fast [of "demoForm\<lparr>selectedProject := []\<rparr>"
          resolveNotFound acceptUpload demoUser]
        validation_fails_fast [of "demoForm\<lparr>selectedSynthesisType := [], tableData := []\<rparr>"
          resolveNotFound acceptUpload demoUser]
        validation_fails_fast [of "demoForm\<lparr>tableData := []\<rparr>"
          resolveNotFound acceptUpload demoUser]
  by (simp add: demoForm_def)

text \<open>
  C3, as the code has it. The batch identifier text counts once trimmed. When a submission
  passes validation, its trimmed batch text is not empty, and the resolve capability answers
  that text with status not_found or multiple_matches, the resolve request is the only one
  sent (no upload), the parent is handed the answer together with the selected project, the
  selected synthesis type and the cleaned rows as they were, and the App stores both
  unchanged and shows the resolution view; the form keeps its data.
\<close>

theorem suspend_on_ambiguity:
  assumes valid: "selectedProject st \<noteq> []" "selectedSynthesisType st \<noteq> []" "tableData st \<noteq> []"
    and given: "trim (batchId st) \<noteq> []"
    and answer: "resolveBatch (trim (batchId st)) (u_orcid u) (selectedProject st) = Returned r"
    and ambiguous: "status r = ''not_found'' \<or> status r = ''multiple_matches''"
  shows "calls (handleUpload resolveBatch upload u st)
           = [ResolveCall (trim (batchId st)) (u_orcid u) (selectedProject st)]
       \<and> callback (handleUpload resolveBatch upload u st)
           = Some (OnShowBatchResolution r
               \<lparr>p_project = selectedProject st,
                p_synthesisType = selectedSynthesisType st,
                p_data = tableData st\<rparr>)
       \<and> form (handleUpload resolveBatch upload u st) = st\<lparr>error := [], loading := False\<rparr>
       \<and> submitUpload resolveBatch upload u st app
           = (st\<lparr>error := [], loading := False\<rparr>,
              app\<lparr>batchResolution := Some r,
                  pendingUploadData := Some \<lparr>p_project = selectedProject st,
                                             p_synthesisType = selectedSynthesisType st,
                                             p_data = tableData st\<rparr>,
                  currentView := BatchResolutionView\<rparr>,
              [ResolveCall (trim (batchId st)) (u_orcid u) (selectedProject st)])"
proof -
  have out: "handleUpload resolveBatch upload u st
      = \<lparr>form = st\<lparr>error := [], loading := False\<rparr>,
         calls = [ResolveCall (trim (batchId st)) (u_orcid u) (selectedProject st)],
         callback = Some (OnShowBatchResolution r
               \<lparr>p_project = selectedProject st,
                p_synthesisType = selectedSynthesisType st,
                p_data = tableData st\<rparr>)\<rparr>"
    using valid given answer ambiguous by (auto simp: handleUpload_def Let_def)
  show ?thesis
    unfolding submitUpload_def out by (simp add: handleShowBatchResolution_def)
qed

text \<open>
  Scenario C up to the pause: the form with batch text B-404 against a backend that finds
  nothing sends one resolve request, and the App then holds the answer and the pending data.
\<close>

theorem suspend_on_ambiguity_witness:
  "selectedProject demoForm \<noteq> [] \<and> selectedSynthesisType demoForm \<noteq> []
   \<and> tableData demoForm \<noteq> [] \<and> trim (batchId demoForm) = ''B-404''
   \<and> resolveNotFound ''B-404'' ''0000-0001'' ''P1'' = Returned (notFound ''B-404'')
   \<and> calls (handleUpload resolveNotFound acceptUpload demoUser demoForm)
       = [ResolveCall ''B-404'' ''0000-0001'' ''P1'']
   \<and> callback (handleUpload resolveNotFound acceptUpload demoUser demoForm)
       = Some (OnShowBatchResolution (notFound ''B-404'') demoPending)
   \<and> submitUpload resolveNotFound acceptUpload demoUser demoForm loggedIn
       = (demoForm, demoSuspended, [ResolveCall ''B-404'' ''0000-0001'' ''P1''])"
proof -
  have trimmed: "trim (batchId demoForm) = ''B-404''"
    by (simp add: demoForm_def trim_def is_ws_def)
  have given: "trim (batchId demoForm) \<noteq> []"
    unfolding trimmed by simp
  have answer: "resolveNotFound (trim (batchId demoForm)) (u_orcid demoUser)
                  (selectedProject demoForm) = Returned (notFound ''B-404'')"
    unfolding trimmed by (simp add: resolveNotFound_def)
  have ambiguous: "status (notFound ''B-404'') = ''not_found''
      \<or> status (notFound ''B-404'') = ''multiple_matches''"
    by (simp add: notFound_def)
  have valid: "selectedProject demoForm \<noteq> []" "selectedSynthesisType demoForm \<noteq> []"
      "tableData demoForm \<noteq> []"
    by (simp_all add: demoForm_def)
  show ?thesis
    using valid trimmed
      suspend_on_ambiguity [where resolveBatch = resolveNotFound and st = demoForm
        and u = demoUser and r = "notFound ''B-404''" and upload = acceptUpload
        and app = loggedIn, OF valid given answer ambiguous]
    by (simp add: demoForm_def demoUser_def demoPending_def demoSuspended_def loggedIn_def
        resolveNotFound_def)
qed

text \<open>
  C3 as stated fails for a batch text of two spaces: it is not empty and the backend answers
  not_found to whatever it is asked, yet line 58 trims the text, no resolve request is sent,
  and the upload goes out with \<open>batch_id\<close> null.
\<close>

theorem suspend_on_ambiguity_counterexample:
  "selectedProject spacesForm \<noteq> [] \<and> selectedSynthesisType spacesForm \<noteq> []
   \<and> tableData spacesForm \<noteq> [] \<and> batchId spacesForm = ''  '' \<and> batchId spacesForm \<noteq> []
   \<and> resolveNotFound ''  '' ''0000-0001'' ''P1'' = Returned (notFound ''  '')
   \<and> status (notFound ''  '') = ''not_found''
   \<and> calls (handleUpload resolveNotFound acceptUpload demoUser spacesForm)
       = [UploadCall \<lparr>email = ''ada@lab.org'', orcid = ''0000-0001'', user_name = ''Ada'',
                      project = ''P1'', synthesis_type = ''Solid Precursor'', batch_id = None,
                      data = [demoRow]\<rparr>]
   \<and> callback (handleUpload resolveNotFound acceptUpload demoUser spacesForm)
       = Some (OnUploadSuccess (Some ''Uploaded'') None)
   \<and> currentView (fst (snd (submitUpload resolveNotFound acceptUpload demoUser spacesForm
                                loggedIn))) = SummaryView"
  by (simp add: spacesForm_def demoForm_def demoUser_def resolveNotFound_def notFound_def
      acceptUpload_def handleUpload_def performUpload_def Let_def trim_def is_ws_def
      submitUpload_def handleUploadSuccess_def loggedIn_def)

section \<open>Resuming after the pause\<close>

text \<open>
  C1, as the code has it. Cancelling a suspended submission (in the not_found or
  multiple_matches state) sends exactly one request, the upload, with \<open>batch_id\<close> null, and so
  no resolve and no create-batch request. Afterwards the pending payload and the resolution
  are discarded, and the session shows the summary when the upload reported success and the
  editable form otherwise.
\<close>

theorem cancel_uploads_without_batch:
  assumes "currentView app = BatchResolutionView"
    and "batchResolution app = Some r"
    and "status r = ''not_found'' \<or> status r = ''multiple_matches''"
    and "pendingUploadData app = Some p"
    and "userInfo app = Some u"
  shows "\<exists>payload.
           snd (handleBatchResolutionCancel upload app) = [UploadCall payload]
         \<and> batch_id payload = None
         \<and> pendingUploadData (fst (handleBatchResolutionCancel upload app)) = None
         \<and> batchResolution (fst (handleBatchResolutionCancel upload app)) = None
         \<and> currentView (fst (handleBatchResolutionCancel upload app))
             = (case upload payload of
                  Returned response \<Rightarrow> if success response then SummaryView else MainView
                | Threw err \<Rightarrow> MainView)"
  using assms
  by (auto simp: handleBatchResolutionCancel_def uploadPending_def Let_def
      split: api_result.splits)

text \<open>
  Cancelling the suspended B-404 session against a backend that rejects uploads: one upload
  request, the pending data gone, the editable form shown again.
\<close>

theorem cancel_uploads_without_batch_witness:
  "currentView demoSuspended = BatchResolutionView
   \<and> batchResolution demoSuspended = Some (notFound ''B-404'')
   \<and> pendingUploadData demoSuspended = Some demoPending
   \<and> userInfo demoSuspended = Some demoUser
   \<and> length (snd (handleBatchResolutionCancel rejectUpload demoSuspended)) = 1
   \<and> pendingUploadData (fst (handleBatchResolutionCancel rejectUpload demoSuspended)) = None
   \<and> currentView (fst (handleBatchResolutionCancel rejectUpload demoSuspended)) = MainView"
proof -
  have h: "currentView demoSuspended = BatchResolutionView"
      "batchResolution demoSuspended = Some (notFound ''B-404'')"
      "status (notFound ''B-404'') = ''not_found''
         \<or> status (notFound ''B-404'') = ''multiple_matches''"
      "pendingUploadData demoSuspended = Some demoPending"
      "userInfo demoSuspended = Some demoUser"
    by (simp_all add: demoSuspended_def notFound_def)
  from cancel_uploads_without_batch [OF h, of rejectUpload]
  show ?thesis using h by (auto simp: rejectUpload_def)
qed

text \<open>
  C1 as stated fails: cancelling the suspended B-404 session sends an upload request, and when
  the backend accepts it the session shows the summary, not the editable form.
\<close>

theorem cancel_no_network_counterexample:
  "snd (handleBatchResolutionCancel acceptUpload demoSuspended)
     = [UploadCall \<lparr>email = ''ada@lab.org'', orcid = ''0000-0001'', user_name = ''Ada'',
                    project = ''P1'', synthesis_type = ''Solid Precursor'', batch_id = None,
                    data = [demoRow]\<rparr>]
   \<and> snd (handleBatchResolutionCancel acceptUpload demoSuspended) \<noteq> []
   \<and> currentView (fst (handleBatchResolutionCancel acceptUpload demoSuspended)) = SummaryView"
  by (simp add: handleBatchResolutionCancel_def uploadPending_def Let_def demoSuspended_def
      demoUser_def demoPending_def acceptUpload_def)

text \<open>
  C2. Cancelling a submission suspended in the not_found state sends the upload whose payload
  has \<open>batch_id\<close> null and the pending project, synthesis type and cleaned rows (with the
  operator's email, ORCID and name).
\<close>

theorem cancel_payload:
  assumes "currentView app = BatchResolutionView"
    and "batchResolution app = Some r"
    and "status r = ''not_found''"
    and "pendingUploadData app = Some p"
    and "userInfo app = Some u"
  shows "snd (handleBatchResolutionCancel upload app)
           = [UploadCall \<lparr>email = u_email u,
                          orcid = u_orcid u,
                          user_name = u_name u,
                          project = p_project p,
                          synthesis_type = p_synthesisType p,
                          batch_id = None,
                          data = p_data p\<rparr>]"
  using assms
  by (simp add: handleBatchResolutionCancel_def uploadPending_def Let_def)

text \<open>Scenario C after the pause: the payload of the B-404 session once the operator cancels.\<close>

theorem cancel_payload_witness:
  "currentView demoSuspended = BatchResolutionView
   \<and> batchResolution demoSuspended = Some (notFound ''B-404'')
   \<and> status (notFound ''B-404'') = ''not_found''
   \<and> pendingUploadData demoSuspended = Some demoPending
   \<and> userInfo demoSuspended = Some demoUser
   \<and> snd (handleBatchResolutionCancel rejectUpload demoSuspended)
       = [UploadCall \<lparr>email = ''ada@lab.org'', orcid = ''0000-0001'', user_name = ''Ada'',
                      project = ''P1'', synthesis_type = ''Solid Precursor'', batch_id = None,
                      data = [demoRow]\<rparr>]"
proof -
  have h: "currentView demoSuspended = BatchResolutionView"
      "batchResolution demoSuspended = Some (notFound ''B-404'')"
      "status (notFound ''B-404'') = ''not_found''"
      "pendingUploadData demoSuspended = Some demoPending"
      "userInfo demoSuspended = Some demoUser"
    by (simp_all add: demoSuspended_def notFound_def)
  from cancel_payload [OF h, of rejectUpload]
  show ?thesis using h by (simp add: demoUser_def demoPending_def)
qed

section \<open>Selecting among several matches\<close>


lemma offered_change:
  "v \<in> set (batchSelectOptions res) \<Longrightarrow>
   selectedBatch (handleSelectChange v st) \<in> set (batchSelectOptions res)"
  by (simp add: handleSelectChange_def)

lemma offered_confirm:
  "selectedBatch (fst (handleSelectBatch res st)) = selectedBatch st"
  by (simp add: handleSelectBatch_def split: option.splits)



end
